theory Spec2Isabelle
  imports Complex_Main "HOL-Library.Word"
begin

section \<open>Data model of \<open>modules/image_processor.py\<close>\<close>

text \<open>
  An image is a numpy array of 8-bit samples. A 2-D array (one intensity per pixel) is
  a list of rows; a 3-D array carries several channels per pixel, in OpenCV's order
  blue, green, red (and alpha). \<open>Channels c\<close> stands for a 3-D array whose last
  dimension \<open>c\<close> is neither 3 nor 4. All rows of an array have the same length.
\<close>

type_synonym u8 = "8 word"
type_synonym gray_image = "u8 list list"
type_synonym color = "u8 \<times> u8 \<times> u8"
type_synonym color_image = "color list list"

datatype image =
    Gray gray_image
  | BGR color_image
  | BGRA "(u8 \<times> u8 \<times> u8 \<times> u8) list list"
  | Channels nat "u8 list list list"

text \<open>
  Exceptions are values. \<open>Cv2Error\<close>, \<open>KeyError\<close>, \<open>ValueError\<close> and
  \<open>AttributeError\<close> are what OpenCV, the dictionary, numpy and an attribute access on
  \<open>None\<close> raise. \<open>InvalidImageError\<close>, \<open>DecodeError\<close> and
  \<open>ProcessingError\<close> are the error classes named by the specification; they are part
  of the type so that statements about them can be written down.
\<close>

datatype cv2_cause = EmptySource | InvalidChannels nat | EqualizationFailed

datatype error =
    Cv2Error cv2_cause
  | KeyError string
  | ValueError
  | AttributeError
  | InvalidImageError
  | DecodeError
  | ProcessingError error

text \<open>
  A band is \<open>(min_val, max_val, color)\<close>; \<open>COLOR_SCHEMES\<close> of \<open>modules/config.py\<close>
  maps a scheme name to its bands, in declaration order. The table itself is a parameter
  of every function that reads it.
\<close>

type_synonym band = "int \<times> int \<times> color"
type_synonym registry = "string \<rightharpoonup> band list"

text \<open>The default key, the two code points U+6807 U+51C6 in UTF-8.\<close>

definition standard :: string where
  "standard = [CHR 0xE6, CHR 0xA0, CHR 0x87, CHR 0xE5, CHR 0x87, CHR 0x86]"

section \<open>Conversion to gray\<close>

text \<open>
  \<open>cv2.cvtColor(image, cv2.COLOR_BGR2GRAY)\<close> on 8-bit samples: the fixed-point luma
  \<open>(3735 B + 19235 G + 9798 R + 2^14) >> 15\<close>. It rejects an empty array and a
  channel count other than 3 or 4; the alpha channel is ignored.
\<close>

definition bgr2gray :: "color \<Rightarrow> u8" where
  "bgr2gray = (\<lambda>(b, g, r).
     word_of_nat ((unat b * 3735 + unat g * 19235 + unat r * 9798 + 16384) div 32768))"

definition cvtColor_BGR2GRAY :: "image \<Rightarrow> error + gray_image" where
  "cvtColor_BGR2GRAY img =
     (case img of
        Gray px \<Rightarrow>
          (if concat px = [] then Inl (Cv2Error EmptySource)
           else Inl (Cv2Error (InvalidChannels 1)))
      | BGR px \<Rightarrow>
          (if concat px = [] then Inl (Cv2Error EmptySource)
           else Inr (map (map bgr2gray) px))
      | BGRA px \<Rightarrow>
          (if concat px = [] then Inl (Cv2Error EmptySource)
           else Inr (map (map (\<lambda>(b, g, r, a). bgr2gray (b, g, r))) px))
      | Channels c px \<Rightarrow>
          (if concat px = [] then Inl (Cv2Error EmptySource)
           else Inl (Cv2Error (InvalidChannels c))))"

definition to_gray :: "image \<Rightarrow> error + gray_image" where
  "to_gray img =
     (case img of
        Gray px \<Rightarrow> Inr px
      | _ \<Rightarrow> cvtColor_BGR2GRAY img)"

section \<open>Band colour mapping\<close>

definition get_layers :: "registry \<Rightarrow> string \<Rightarrow> error + band list" where
  "get_layers schemes color_scheme =
     (case schemes standard of
        None \<Rightarrow> Inl (KeyError standard)
      | Some dflt \<Rightarrow>
          (case schemes color_scheme of
             None \<Rightarrow> Inr dflt
           | Some layers \<Rightarrow> Inr layers))"

definition zeros3 :: "gray_image \<Rightarrow> color_image" where
  "zeros3 gray = map (map (\<lambda>_. (0, 0, 0))) gray"

definition band_mask :: "int \<Rightarrow> int \<Rightarrow> gray_image \<Rightarrow> bool list list" where
  "band_mask min_val max_val gray =
     map (map (\<lambda>v. min_val \<le> uint v \<and> uint v < max_val)) gray"

definition mask_assign :: "bool list list \<Rightarrow> 'a \<Rightarrow> 'a list list \<Rightarrow> 'a list list" where
  "mask_assign msk c img =
     map2 (\<lambda>ms row. map2 (\<lambda>m p. if m then c else p) ms row) msk img"

fun paint_layers :: "band list \<Rightarrow> gray_image \<Rightarrow> color_image \<Rightarrow> color_image" where
  "paint_layers [] gray color_img = color_img"
| "paint_layers ((min_val, max_val, color) # layers) gray color_img =
     paint_layers layers gray (mask_assign (band_mask min_val max_val gray) color color_img)"

definition enhance_pseudocolor :: "registry \<Rightarrow> image \<Rightarrow> string \<Rightarrow> error + color_image" where
  "enhance_pseudocolor schemes img color_scheme =
     (case to_gray img of
        Inl e \<Rightarrow> Inl e
      | Inr gray \<Rightarrow>
          (case get_layers schemes color_scheme of
             Inl e \<Rightarrow> Inl e
           | Inr layers \<Rightarrow> Inr (paint_layers layers gray (zeros3 gray))))"

text \<open>
  The colour one pixel ends with: the loop over the bands, seen at a single intensity
  \<open>v\<close> whose output pixel holds \<open>p\<close> before the loop.
\<close>

fun px_color :: "band list \<Rightarrow> u8 \<Rightarrow> color \<Rightarrow> color" where
  "px_color [] v p = p"
| "px_color ((min_val, max_val, color) # layers) v p =
     px_color layers v (if min_val \<le> uint v \<and> uint v < max_val then color else p)"

text \<open>
  The rule as the specification words it: a pixel gets the colour of the last declared
  band whose half-open interval holds its intensity, and stays black when no band does.
\<close>

definition in_band :: "band \<Rightarrow> u8 \<Rightarrow> bool" where
  "in_band b v = (fst b \<le> uint v \<and> uint v < fst (snd b))"

definition last_band_color :: "band list \<Rightarrow> u8 \<Rightarrow> color" where
  "last_band_color layers v =
     (case filter (\<lambda>b. in_band b v) layers of
        [] \<Rightarrow> (0, 0, 0)
      | bs \<Rightarrow> snd (snd (last bs)))"

section \<open>Legend\<close>

text \<open>
  A bound of a Python slice on an axis of length \<open>n\<close>: a negative bound counts from
  the end, and the result is cut to \<open>0..n\<close>.
\<close>

definition slice_index :: "int \<Rightarrow> nat \<Rightarrow> nat" where
  "slice_index i n = (if i < 0 then nat (max 0 (i + int n)) else min (nat i) n)"

text \<open>\<open>legend[:, min_val:max_val] = color\<close>: the same columns of every row.\<close>

definition column_assign :: "int \<Rightarrow> int \<Rightarrow> 'a \<Rightarrow> 'a list list \<Rightarrow> 'a list list" where
  "column_assign min_val max_val c legend =
     map (\<lambda>row.
            let start = slice_index min_val (length row);
                stop = slice_index max_val (length row)
            in if start < stop
               then take start row @ replicate (stop - start) c @ drop stop row
               else row) legend"

fun fill_layers :: "band list \<Rightarrow> color_image \<Rightarrow> color_image" where
  "fill_layers [] legend = legend"
| "fill_layers ((min_val, max_val, color) # layers) legend =
     fill_layers layers (column_assign min_val max_val color legend)"

definition generate_legend :: "registry \<Rightarrow> string \<Rightarrow> error + color_image" where
  "generate_legend schemes color_scheme =
     (case get_layers schemes color_scheme of
        Inl e \<Rightarrow> Inl e
      | Inr layers \<Rightarrow> Inr (fill_layers layers (replicate 40 (replicate 256 (0, 0, 0)))))"


section \<open>Histogram and statistics\<close>

text \<open>
  \<open>np.bincount(x, minlength)\<close>: a zero array of length \<open>max(minlength, max(x) + 1)\<close>
  in which every element of \<open>x\<close> increments its bin.
\<close>

definition bincount :: "nat list \<Rightarrow> nat \<Rightarrow> nat list" where
  "bincount xs minlength =
     foldl (\<lambda>counts x. counts[x := counts ! x + 1])
       (replicate (max minlength (if xs = [] then 0 else Max (set xs) + 1)) 0) xs"

definition compute_histogram :: "image \<Rightarrow> error + nat list" where
  "compute_histogram img =
     (case to_gray img of
        Inl e \<Rightarrow> Inl e
      | Inr gray \<Rightarrow> Inr (bincount (map unat (concat gray)) 256))"


text \<open>
  The statistics are Python floats; they are modelled by real numbers, with
  \<open>np.mean\<close>, \<open>np.std\<close> (the population standard deviation) and \<open>np.median\<close>
  (the middle element of the sorted values, or the mean of the two middle ones) computed
  exactly. \<open>np.min\<close> raises \<open>ValueError\<close> on an array without elements. The keys
  \<open>min\<close> and \<open>max\<close> are the fields \<open>min_stat\<close> and \<open>max_stat\<close>.
\<close>

record stats =
  min_stat :: real
  max_stat :: real
  mean :: real
  std :: real
  width :: real
  height :: real
  median :: real

definition np_mean :: "real list \<Rightarrow> real" where
  "np_mean xs = sum_list xs / real (length xs)"

definition np_std :: "real list \<Rightarrow> real" where
  "np_std xs = sqrt (np_mean (map (\<lambda>x. \<bar>x - np_mean xs\<bar> ^ 2) xs))"

definition np_median :: "real list \<Rightarrow> real" where
  "np_median xs =
     (let part = sort xs; index = length part div 2
      in if length part mod 2 = 1
         then np_mean (take 1 (drop index part))
         else np_mean (take 2 (drop (index - 1) part)))"

definition calculate_image_stats :: "image \<Rightarrow> error + stats" where
  "calculate_image_stats img =
     (case to_gray img of
        Inl e \<Rightarrow> Inl e
      | Inr gray \<Rightarrow>
          (let vals = map (\<lambda>v. real (unat v)) (concat gray)
           in if vals = [] then Inl ValueError
              else Inr \<lparr> min_stat = Min (set vals), max_stat = Max (set vals),
                         mean = np_mean vals, std = np_std vals,
                         width = real (length (hd gray)), height = real (length gray),
                         median = np_median vals \<rparr>))"

section \<open>Grayscale normalisation\<close>

text \<open>
  What the code takes from OpenCV without fixing it: the equaliser
  \<open>cv2.createCLAHE(clipLimit=2.0, tileGridSize=(8, 8)).apply\<close>, which returns an image
  or raises \<open>cv2.error\<close>, and whether the binding hands back \<open>None\<close> instead of an
  array without elements.
\<close>

record opencv =
  clahe_apply :: "gray_image \<Rightarrow> cv2_cause + gray_image"
  none_on_empty :: bool

text \<open>
  \<open>cv2.convertScaleAbs(src, alpha, beta)\<close> computes
  \<open>saturate_cast<uchar>(|src * alpha + beta|)\<close> on every sample. \<open>cvRound\<close> rounds to
  the nearest integer, ties to the even one. The library works in floating point; the
  model computes \<open>src * alpha + beta\<close> exactly.
\<close>

definition cvRound :: "real \<Rightarrow> int" where
  "cvRound x =
     (let f = \<lfloor>x\<rfloor>; d = x - of_int f
      in if d < 1 / 2 then f else if 1 / 2 < d then f + 1 else if even f then f else f + 1)"

definition saturate_cast_uchar :: "int \<Rightarrow> u8" where
  "saturate_cast_uchar v =
     word_of_int (if 0 \<le> v \<and> v \<le> 255 then v else if 0 < v then 255 else 0)"

definition scale_abs_px :: "real \<Rightarrow> real \<Rightarrow> u8 \<Rightarrow> u8" where
  "scale_abs_px alpha beta v = saturate_cast_uchar (cvRound \<bar>real (unat v) * alpha + beta\<bar>)"

definition convertScaleAbs :: "opencv \<Rightarrow> gray_image \<Rightarrow> real \<Rightarrow> real \<Rightarrow> gray_image option" where
  "convertScaleAbs cv src alpha beta =
     (if concat src = [] \<and> none_on_empty cv then None
      else Some (map (map (scale_abs_px alpha beta)) src))"

text \<open>
  Both \<open>except\<close> clauses log and re-raise, so an error leaves the function as it was
  raised. On \<open>None\<close> the read of \<open>gray.shape\<close> for the log message raises
  \<open>AttributeError\<close>.
\<close>

definition preprocess_image ::
  "opencv \<Rightarrow> image \<Rightarrow> bool \<Rightarrow> real \<Rightarrow> int \<Rightarrow> error + gray_image" where
  "preprocess_image cv img apply_clahe contrast brightness =
     (case to_gray img of
        Inl e \<Rightarrow> Inl e
      | Inr gray \<Rightarrow>
          (case (if apply_clahe then clahe_apply cv gray else Inr gray) of
             Inl cause \<Rightarrow> Inl (Cv2Error cause)
           | Inr gray' \<Rightarrow>
               (case convertScaleAbs cv gray' contrast (of_int brightness) of
                  None \<Rightarrow> Inl AttributeError
                | Some out \<Rightarrow> Inr out)))"



section \<open>The single-image pipeline\<close>

text \<open>
  \<open>process_single_image\<close> of \<open>app.py\<close>, from the decoded image on: preprocess,
  colour the preprocessed image, compute the statistics of the decoded image.
\<close>

definition process_single_image ::
  "opencv \<Rightarrow> registry \<Rightarrow> image \<Rightarrow> bool \<Rightarrow> real \<Rightarrow> int \<Rightarrow> string
     \<Rightarrow> error + color_image \<times> stats" where
  "process_single_image cv schemes img apply_clahe contrast brightness color_scheme =
     (case preprocess_image cv img apply_clahe contrast brightness of
        Inl e \<Rightarrow> Inl e
      | Inr preprocessed_img \<Rightarrow>
          (case enhance_pseudocolor schemes (Gray preprocessed_img) color_scheme of
             Inl e \<Rightarrow> Inl e
           | Inr enhanced_img \<Rightarrow>
               (case calculate_image_stats img of
                  Inl e \<Rightarrow> Inl e
                | Inr stats \<Rightarrow> Inr (enhanced_img, stats))))"

section \<open>Conditions on a scheme\<close>

text \<open>
  The conditions of the idempotence property, in the specification's words: the bands
  are pairwise disjoint and together cover \<open>[0, 256)\<close>. The third condition says that
  the colour of every band that holds a gray level, read as a BGR pixel, has its own
  gray value inside that band.
\<close>

definition overlap :: "band \<Rightarrow> band \<Rightarrow> bool" where
  "overlap b b' = (\<exists>v :: u8. in_band b v \<and> in_band b' v)"

fun pairwise_disjoint :: "band list \<Rightarrow> bool" where
  "pairwise_disjoint [] = True"
| "pairwise_disjoint (b # bs) = ((\<forall>b' \<in> set bs. \<not> overlap b b') \<and> pairwise_disjoint bs)"

definition covers :: "band list \<Rightarrow> bool" where
  "covers layers = (\<forall>v :: u8. \<exists>b \<in> set layers. in_band b v)"

definition gray_stays_in_band :: "band list \<Rightarrow> bool" where
  "gray_stays_in_band layers =
     (\<forall>b \<in> set layers. \<forall>v :: u8. in_band b v \<longrightarrow> in_band b (bgr2gray (snd (snd b))))"

section \<open>Concrete tables\<close>

text \<open>A table with only the default scheme, of two bands.\<close>

definition two_band_schemes :: registry where
  "two_band_schemes = Map.empty(standard \<mapsto> [(0, 128, (0, 0, 255)), (128, 256, (255, 0, 0))])"

text \<open>The scheme of the end-to-end scenario, as the default scheme of a table.\<close>

definition scenario_scheme :: "band list" where
  "scenario_scheme = [(0, 100, (0, 0, 255)), (100, 200, (0, 255, 0)), (200, 256, (255, 0, 0))]"

definition scenario_schemes :: registry where
  "scenario_schemes = Map.empty(standard \<mapsto> scenario_scheme)"

text \<open>A table whose default scheme keeps the gray value of each band's colour.\<close>

definition closed_schemes :: registry where
  "closed_schemes = Map.empty(standard \<mapsto> [(0, 100, (0, 0, 255)), (100, 256, (0, 255, 0))])"

text \<open>An OpenCV whose equaliser always fails, for calls that leave equalisation off.\<close>

definition failing_clahe :: opencv where
  "failing_clahe = \<lparr> clahe_apply = (\<lambda>_. Inl EqualizationFailed), none_on_empty = True \<rparr>"

section \<open>Properties\<close>

lemma get_layers_unknown:
  "schemes standard = Some dflt \<Longrightarrow> schemes name = None \<Longrightarrow> get_layers schemes name = Inr dflt"
  by (simp add: get_layers_def)

lemma get_layers_standard:
  "schemes standard = Some dflt \<Longrightarrow> get_layers schemes standard = Inr dflt"
  by (simp add: get_layers_def)

subsection \<open>The band loop, pixel by pixel\<close>

lemma mask_assign_map:
  "mask_assign (band_mask lo hi gray) c (map (map f) gray) =
   map (map (\<lambda>v. if lo \<le> uint v \<and> uint v < hi then c else f v)) gray"
  by (simp add: mask_assign_def band_mask_def zip_map_map zip_same_conv_map)

lemma paint_layers_map:
  "paint_layers layers gray (map (map f) gray) =
   map (map (\<lambda>v. px_color layers v (f v))) gray"
proof (induction layers arbitrary: f)
  case Nil
  show ?case by simp
next
  case (Cons b layers)
  obtain lo hi c where b: "b = (lo, hi, c)" by (cases b)
  show ?case
    unfolding b paint_layers.simps mask_assign_map Cons.IH by simp
qed

lemma px_color_filter:
  "px_color layers v p =
     (case filter (\<lambda>b. in_band b v) layers of [] \<Rightarrow> p | bs \<Rightarrow> snd (snd (last bs)))"
proof (induction layers arbitrary: p)
  case Nil
  show ?case by simp
next
  case (Cons b layers)
  obtain lo hi c where b: "b = (lo, hi, c)" by (cases b)
  show ?case
    by (auto simp: b Cons.IH in_band_def split: list.splits)
qed

lemma px_color_black: "px_color layers v (0, 0, 0) = last_band_color layers v"
  by (simp add: px_color_filter last_band_color_def)

lemma paint_layers_zeros3:
  "paint_layers layers gray (zeros3 gray) = map (map (last_band_color layers)) gray"
  unfolding zeros3_def paint_layers_map px_color_black ..

lemma enhance_pseudocolor_Gray:
  "get_layers schemes name = Inr layers \<Longrightarrow>
   enhance_pseudocolor schemes (Gray gray) name = Inr (map (map (last_band_color layers)) gray)"
  by (simp add: enhance_pseudocolor_def to_gray_def paint_layers_zeros3)

lemma get_layers_known:
  "schemes standard = Some dflt \<Longrightarrow> schemes name = Some layers \<Longrightarrow>
   get_layers schemes name = Inr layers"
  by (simp add: get_layers_def)

lemma get_layers_fallback:
  "schemes name = None \<Longrightarrow> get_layers schemes name = get_layers schemes standard"
  by (simp add: get_layers_def split: option.splits)

subsection \<open>Band mapping and override order\<close>

text \<open>
  Claim C3. \<open>enhance_pseudocolor\<close> gives every pixel of a gray image the colour of the
  last band, in declaration order, with \<open>lo \<le> v < hi\<close>. For the scheme
  \<open>[(0, 256, RED), (100, 150, BLUE)]\<close> the pixels with intensity in \<open>[100, 150)\<close>
  are \<open>BLUE\<close> and all the others \<open>RED\<close>.
\<close>

theorem enhance_pseudocolor_override_order:
  assumes "schemes standard = Some dflt" and "schemes name = Some layers"
  shows "enhance_pseudocolor schemes (Gray gray) name =
           Inr (map (map (last_band_color layers)) gray)
         \<and> (layers = [(0, 256, RED), (100, 150, BLUE)] \<longrightarrow>
              enhance_pseudocolor schemes (Gray gray) name =
                Inr (map (map (\<lambda>v. if 100 \<le> uint v \<and> uint v < 150 then BLUE else RED)) gray))"
proof -
  have gl: "get_layers schemes name = Inr layers"
    using assms by (rule get_layers_known)
  have general: "enhance_pseudocolor schemes (Gray gray) name =
      Inr (map (map (last_band_color layers)) gray)"
    using gl by (rule enhance_pseudocolor_Gray)
  have two: "last_band_color [(0, 256, RED), (100, 150, BLUE)] v =
      (if 100 \<le> uint v \<and> uint v < 150 then BLUE else RED)" for v :: u8
  proof -
    have "uint v < 256" using uint_lt2p [of v] by simp
    then show ?thesis by (simp add: last_band_color_def in_band_def)
  qed
  show ?thesis using general by (simp add: two)
qed

theorem enhance_pseudocolor_override_order_witness:
  "(Map.empty(standard \<mapsto> [(0, 256, (0, 0, 255)), (100, 150, (255, 0, 0))])) standard =
     Some [(0, 256, (0, 0, 255)), (100, 150, (255, 0, 0))]
   \<and> enhance_pseudocolor (Map.empty(standard \<mapsto> [(0, 256, (0, 0, 255)), (100, 150, (255, 0, 0))]))
       (Gray [[0, 99, 100], [149, 150, 255]]) standard =
     Inr [[(0, 0, 255), (0, 0, 255), (255, 0, 0)], [(255, 0, 0), (0, 0, 255), (0, 0, 255)]]"
  using enhance_pseudocolor_override_order
    [of "Map.empty(standard \<mapsto> [(0, 256, (0, 0, 255)), (100, 150, (255, 0, 0))])"
        "[(0, 256, (0, 0, 255)), (100, 150, (255, 0, 0))]" standard
        "[(0, 256, (0, 0, 255)), (100, 150, (255, 0, 0))]"
        "[[0, 99, 100], [149, 150, 255]]" "(0, 0, 255)" "(255, 0, 0)"]
  by (simp add: last_band_color_def in_band_def)

subsection \<open>Unknown scheme names\<close>

text \<open>
  Claim C4. A scheme name that is not a key of the table gives the same result as the
  default name, for every image; when the table holds the default key, no error is
  raised for a gray image and the result is the default scheme's colouring.
\<close>

theorem enhance_pseudocolor_fallback:
  assumes "schemes name = None"
  shows "enhance_pseudocolor schemes img name = enhance_pseudocolor schemes img standard
         \<and> (schemes standard = Some dflt \<longrightarrow>
              enhance_pseudocolor schemes (Gray gray) name =
                Inr (map (map (last_band_color dflt)) gray))"
proof -
  have eq: "get_layers schemes name = get_layers schemes standard"
    using assms by (rule get_layers_fallback)
  have same: "enhance_pseudocolor schemes img name = enhance_pseudocolor schemes img standard"
    unfolding enhance_pseudocolor_def eq ..
  have "enhance_pseudocolor schemes (Gray gray) name =
      Inr (map (map (last_band_color dflt)) gray)" if "schemes standard = Some dflt"
    using that assms by (intro enhance_pseudocolor_Gray get_layers_unknown)
  with same show ?thesis by simp
qed

theorem enhance_pseudocolor_fallback_witness:
  "two_band_schemes ''nonexistent_scheme'' = None
   \<and> enhance_pseudocolor two_band_schemes (Gray [[0, 200]]) ''nonexistent_scheme'' =
       enhance_pseudocolor two_band_schemes (Gray [[0, 200]]) standard
   \<and> enhance_pseudocolor two_band_schemes (Gray [[0, 200]]) ''nonexistent_scheme'' =
       Inr [[(0, 0, 255), (255, 0, 0)]]"
proof -
  have unknown: "two_band_schemes ''nonexistent_scheme'' = None"
    by (simp add: two_band_schemes_def standard_def)
  have dflt: "two_band_schemes standard = Some [(0, 128, (0, 0, 255)), (128, 256, (255, 0, 0))]"
    by (simp add: two_band_schemes_def)
  have col: "map (map (last_band_color [(0, 128, (0, 0, 255)), (128, 256, (255, 0, 0))])) [[0, 200]]
      = [[(0, 0, 255), (255, 0, 0)]]"
    by (simp add: last_band_color_def in_band_def)
  show ?thesis
    using unknown dflt col
      enhance_pseudocolor_fallback [of two_band_schemes "''nonexistent_scheme''" "Gray [[0, 200]]"
        "[(0, 128, (0, 0, 255)), (128, 256, (255, 0, 0))]" "[[0, 200]]"]
    by auto
qed

subsection \<open>The legend\<close>





lemma replicate_as_map: "replicate n x = map (\<lambda>_. x) [0..<n]"
  by (simp add: map_replicate_trivial)








text \<open>
  Claim C10. For a name that is not a key of the table, \<open>generate_legend\<close> returns what
  it returns for the default name; when the table holds the default key this is the
  legend of the default scheme, and no error is raised.
\<close>

theorem generate_legend_fallback:
  assumes "schemes name = None"
  shows "generate_legend schemes name = generate_legend schemes standard
         \<and> (schemes standard = Some dflt \<longrightarrow>
              generate_legend schemes name =
                Inr (fill_layers dflt (replicate 40 (replicate 256 (0, 0, 0)))))"
proof -
  have eq: "get_layers schemes name = get_layers schemes standard"
    using assms by (rule get_layers_fallback)
  have same: "generate_legend schemes name = generate_legend schemes standard"
    unfolding generate_legend_def eq ..
  have "generate_legend schemes name =
      Inr (fill_layers dflt (replicate 40 (replicate 256 (0, 0, 0))))"
    if "schemes standard = Some dflt"
    using get_layers_unknown [OF that assms] by (simp add: generate_legend_def)
  with same show ?thesis by simp
qed

theorem generate_legend_fallback_witness:
  "two_band_schemes ''nonexistent_scheme'' = None
   \<and> generate_legend two_band_schemes ''nonexistent_scheme'' =
       generate_legend two_band_schemes standard
   \<and> generate_legend two_band_schemes ''nonexistent_scheme'' =
       Inr (fill_layers [(0, 128, (0, 0, 255)), (128, 256, (255, 0, 0))]
              (replicate 40 (replicate 256 (0, 0, 0))))"
proof -
  have unknown: "two_band_schemes ''nonexistent_scheme'' = None"
    by (simp add: two_band_schemes_def standard_def)
  have dflt: "two_band_schemes standard = Some [(0, 128, (0, 0, 255)), (128, 256, (255, 0, 0))]"
    by (simp add: two_band_schemes_def)
  show ?thesis
    using unknown dflt
      generate_legend_fallback [of two_band_schemes "''nonexistent_scheme''"
        "[(0, 128, (0, 0, 255)), (128, 256, (255, 0, 0))]"]
    by auto
qed

subsection \<open>Histogram\<close>

lemma count_step_length:
  "length (foldl (\<lambda>counts x. counts[x := counts ! x + 1]) c xs) = length c"
  by (induction xs arbitrary: c) simp_all

lemma count_step_nth:
  assumes "\<forall>x \<in> set xs. x < length c" and "i < length c"
  shows "foldl (\<lambda>counts x. counts[x := counts ! x + 1]) c xs ! i =
         c ! i + length (filter (\<lambda>x. x = i) xs)"
  using assms
proof (induction xs arbitrary: c)
  case Nil
  show ?case by simp
next
  case (Cons x xs)
  have "\<forall>y \<in> set xs. y < length (c[x := c ! x + 1])" and "i < length (c[x := c ! x + 1])"
    using Cons.prems by simp_all
  from Cons.IH [OF this] show ?case
    using Cons.prems by (simp add: nth_list_update)
qed

lemma count_step_sum:
  assumes "\<forall>x \<in> set xs. x < length c"
  shows "sum_list (foldl (\<lambda>counts x. counts[x := counts ! x + 1]) c xs) =
         sum_list c + length xs"
  using assms
proof (induction xs arbitrary: c)
  case Nil
  show ?case by simp
next
  case (Cons x xs)
  have x: "x < length c" using Cons.prems by simp
  have "\<forall>y \<in> set xs. y < length (c[x := c ! x + 1])"
    using Cons.prems by simp
  from Cons.IH [OF this] show ?case
    using x by (simp add: sum_list_update)
qed

lemma unat_u8_less: "unat (v :: u8) < 256"
  using unsigned_less [of v, where 'a = nat] by simp

lemma bins_u8:
  fixes vs :: "u8 list"
  shows "max 256 (if map unat vs = [] then 0 else Max (set (map unat vs)) + 1) = 256"
proof (cases "vs = []")
  case True
  then show ?thesis by simp
next
  case False
  have "Max (set (map unat vs)) \<in> set (map unat vs)"
    using False by (intro Max_in) simp_all
  then have "Max (set (map unat vs)) < 256"
    using unat_u8_less by auto
  then show ?thesis by (simp add: max_def)
qed

lemma bincount_u8:
  fixes vs :: "u8 list"
  shows "bincount (map unat vs) 256 =
         foldl (\<lambda>counts x. counts[x := counts ! x + 1]) (replicate 256 0) (map unat vs)"
  unfolding bincount_def bins_u8 ..

lemma bincount_u8_length: "length (bincount (map unat (vs :: u8 list)) 256) = 256"
  unfolding bincount_u8 count_step_length by simp

lemma bincount_u8_nth:
  fixes vs :: "u8 list"
  assumes "i < 256"
  shows "bincount (map unat vs) 256 ! i = length (filter (\<lambda>v. unat v = i) vs)"
proof -
  have "\<forall>x \<in> set (map unat vs). x < length (replicate 256 (0::nat))"
    using unat_u8_less by auto
  from count_step_nth [OF this, of i] assms show ?thesis
    by (simp add: bincount_u8 filter_map comp_def)
qed

lemma bincount_u8_sum:
  fixes vs :: "u8 list"
  shows "sum_list (bincount (map unat vs) 256) = length vs"
proof -
  have "\<forall>x \<in> set (map unat vs). x < length (replicate 256 (0::nat))"
    using unat_u8_less by auto
  from count_step_sum [OF this] show ?thesis
    by (simp add: bincount_u8)
qed

lemma length_concat_rect:
  "\<forall>row \<in> set rows. length row = w \<Longrightarrow> length (concat rows) = w * length rows"
  by (induction rows) simp_all

text \<open>
  Claim C6. Whenever the image converts to gray (every 2-D image does),
  \<open>compute_histogram\<close> returns 256 counts, bin \<open>i\<close> is the number of pixels of
  intensity \<open>i\<close>, and the bins add up to the number of pixels, which is width times
  height.
\<close>

theorem compute_histogram_counts:
  assumes "to_gray img = Inr gray"
  shows "\<exists>counts. compute_histogram img = Inr counts \<and> length counts = 256
           \<and> (\<forall>i < 256. counts ! i = length (filter (\<lambda>v. unat v = i) (concat gray)))
           \<and> sum_list counts = length (concat gray)
           \<and> (\<forall>w. (\<forall>row \<in> set gray. length row = w) \<longrightarrow> sum_list counts = w * length gray)"
  using assms
  by (simp add: compute_histogram_def bincount_u8_length bincount_u8_nth bincount_u8_sum
      length_concat_rect)

theorem compute_histogram_counts_witness:
  "to_gray (Gray [[0, 3], [3, 255]]) = Inr [[0, 3], [3, 255]]
   \<and> (\<exists>counts. compute_histogram (Gray [[0, 3], [3, 255]]) = Inr counts
         \<and> length counts = 256 \<and> counts ! 0 = 1 \<and> counts ! 3 = 2 \<and> counts ! 7 = 0
         \<and> counts ! 255 = 1 \<and> sum_list counts = 2 * 2)"
proof -
  have g: "to_gray (Gray [[0, 3], [3, 255]]) = Inr [[0, 3], [3, 255]]"
    by (simp add: to_gray_def)
  from compute_histogram_counts [OF g] obtain counts where
    c: "compute_histogram (Gray [[0, 3], [3, 255]]) = Inr counts" "length counts = 256"
      "\<forall>i < 256. counts ! i = length (filter (\<lambda>v. unat v = i) (concat [[0, 3], [3, 255 :: u8]]))"
      "sum_list counts = length (concat [[0, 3], [3, 255 :: u8]])"
    by blast
  have "counts ! 0 = 1" "counts ! 3 = 2" "counts ! 7 = 0" "counts ! 255 = 1"
    using c(3) by simp_all
  with g c(1,2,4) show ?thesis by simp
qed

subsection \<open>Statistics\<close>

lemma sum_list_lower:
  fixes xs :: "real list"
  shows "\<forall>x \<in> set xs. m \<le> x \<Longrightarrow> m * real (length xs) \<le> sum_list xs"
  by (induction xs) (auto simp: algebra_simps)

lemma sum_list_upper:
  fixes xs :: "real list"
  shows "\<forall>x \<in> set xs. x \<le> m \<Longrightarrow> sum_list xs \<le> m * real (length xs)"
  by (induction xs) (auto simp: algebra_simps)

lemma np_mean_bounds:
  assumes "xs \<noteq> []"
  shows "Min (set xs) \<le> np_mean xs" and "np_mean xs \<le> Max (set xs)"
proof -
  have n: "0 < real (length xs)" using assms by simp
  have "Min (set xs) * real (length xs) \<le> sum_list xs"
    by (rule sum_list_lower) simp
  then show "Min (set xs) \<le> np_mean xs"
    using n by (simp add: np_mean_def pos_le_divide_eq)
  have "sum_list xs \<le> Max (set xs) * real (length xs)"
    by (rule sum_list_upper) simp
  then show "np_mean xs \<le> Max (set xs)"
    using n by (simp add: np_mean_def pos_divide_le_eq)
qed

lemma take1_drop: "i < length s \<Longrightarrow> take 1 (drop i s) = [s ! i]"
  by (simp add: Cons_nth_drop_Suc [symmetric])

lemma take2_drop: "Suc i < length s \<Longrightarrow> take 2 (drop i s) = [s ! i, s ! Suc i]"
  by (simp add: Cons_nth_drop_Suc [symmetric] numeral_2_eq_2)

lemma np_mean_single: "np_mean [x] = x"
  by (simp add: np_mean_def)

lemma np_mean_pair: "np_mean [x, y] = (x + y) / 2"
  by (simp add: np_mean_def)

lemma np_median_order_statistic:
  assumes "xs \<noteq> []"
  shows "np_median xs =
         (sort xs ! ((length xs - 1) div 2) + sort xs ! (length xs div 2)) / 2"
proof (cases "length xs mod 2 = 1")
  case True
  have i: "length xs div 2 < length (sort xs)" using assms by simp
  have k: "(length xs - 1) div 2 = length xs div 2" using True by presburger
  have "np_median xs = np_mean (take 1 (drop (length xs div 2) (sort xs)))"
    using True by (simp add: np_median_def Let_def)
  also have "\<dots> = sort xs ! (length xs div 2)"
    unfolding take1_drop [OF i] np_mean_single ..
  finally show ?thesis unfolding k by simp
next
  case False
  then have even: "length xs mod 2 = 0" by presburger
  have pos: "0 < length xs" using assms by simp
  have "Suc (length xs div 2 - 1) < length xs" using even pos by arith
  then have i: "Suc (length xs div 2 - 1) < length (sort xs)" by simp
  have s: "Suc (length xs div 2 - 1) = length xs div 2" using even pos by presburger
  have k: "(length xs - 1) div 2 = length xs div 2 - 1" using even pos by presburger
  have "np_median xs = np_mean (take 2 (drop (length xs div 2 - 1) (sort xs)))"
    using even by (simp add: np_median_def Let_def)
  also have "\<dots> = (sort xs ! (length xs div 2 - 1) + sort xs ! (length xs div 2)) / 2"
    unfolding take2_drop [OF i] np_mean_pair s ..
  finally show ?thesis unfolding k .
qed

lemma np_median_bounds:
  assumes "xs \<noteq> []"
  shows "Min (set xs) \<le> np_median xs" and "np_median xs \<le> Max (set xs)"
proof -
  have pos: "0 < length xs" using assms by simp
  have "(length xs - 1) div 2 < length xs" using pos by arith
  then have "(length xs - 1) div 2 < length (sort xs)" by simp
  then have "sort xs ! ((length xs - 1) div 2) \<in> set (sort xs)" by (rule nth_mem)
  then have a: "sort xs ! ((length xs - 1) div 2) \<in> set xs" by simp
  have "length xs div 2 < length (sort xs)" using pos by simp
  then have "sort xs ! (length xs div 2) \<in> set (sort xs)" by (rule nth_mem)
  then have b: "sort xs ! (length xs div 2) \<in> set xs" by simp
  have "Min (set xs) \<le> sort xs ! ((length xs - 1) div 2)"
    "Min (set xs) \<le> sort xs ! (length xs div 2)"
    using a b by simp_all
  then show "Min (set xs) \<le> np_median xs"
    unfolding np_median_order_statistic [OF assms] by simp
  have "sort xs ! ((length xs - 1) div 2) \<le> Max (set xs)"
    "sort xs ! (length xs div 2) \<le> Max (set xs)"
    using a b by simp_all
  then show "np_median xs \<le> Max (set xs)"
    unfolding np_median_order_statistic [OF assms] by simp
qed

text \<open>
  Claim C7. For an image with at least one pixel, the statistics satisfy
  \<open>min \<le> mean \<le> max\<close> and \<open>min \<le> median \<le> max\<close>, and the median is the exact
  middle order statistic of all the pixels (the mean of the two middle ones when their
  number is even).
\<close>

theorem calculate_image_stats_bounds:
  assumes "to_gray img = Inr gray" and "concat gray \<noteq> []"
  shows "\<exists>s. calculate_image_stats img = Inr s
           \<and> min_stat s \<le> mean s \<and> mean s \<le> max_stat s
           \<and> min_stat s \<le> median s \<and> median s \<le> max_stat s
           \<and> median s =
               (let part = sort (map (\<lambda>v. real (unat v)) (concat gray)); n = length part
                in (part ! ((n - 1) div 2) + part ! (n div 2)) / 2)"
proof -
  let ?vals = "map (\<lambda>v. real (unat v)) (concat gray)"
  have ne: "?vals \<noteq> []" using assms(2) by simp
  have "calculate_image_stats img =
      Inr \<lparr> min_stat = Min (set ?vals), max_stat = Max (set ?vals),
            mean = np_mean ?vals, std = np_std ?vals,
            width = real (length (hd gray)), height = real (length gray),
            median = np_median ?vals \<rparr>"
    using assms by (simp add: calculate_image_stats_def Let_def)
  then show ?thesis
    using np_mean_bounds [OF ne] np_median_bounds [OF ne] np_median_order_statistic [OF ne]
    by (simp add: Let_def)
qed

theorem calculate_image_stats_bounds_witness:
  "to_gray (Gray [[0, 100], [150, 255]]) = Inr [[0, 100], [150, 255]]
   \<and> concat [[0, 100], [150, 255 :: u8]] \<noteq> []
   \<and> (\<exists>s. calculate_image_stats (Gray [[0, 100], [150, 255]]) = Inr s
         \<and> min_stat s \<le> mean s \<and> mean s \<le> max_stat s
         \<and> min_stat s \<le> median s \<and> median s \<le> max_stat s
         \<and> median s = 125)"
proof -
  have g: "to_gray (Gray [[0, 100], [150, 255]]) = Inr [[0, 100], [150, 255]]"
    by (simp add: to_gray_def)
  have ne: "concat [[0, 100], [150, 255 :: u8]] \<noteq> []" by simp
  have m: "(let part = sort (map (\<lambda>v. real (unat v)) (concat [[0, 100], [150, 255 :: u8]]));
                n = length part
            in (part ! ((n - 1) div 2) + part ! (n div 2)) / 2) = 125"
    by (simp add: Let_def)
  show ?thesis
    using g ne calculate_image_stats_bounds [OF g ne] unfolding m by blast
qed

subsection \<open>Contrast and brightness\<close>









subsection \<open>Errors of the normaliser\<close>





subsection \<open>The end-to-end scenario\<close>

lemma scenario_stats:
  "calculate_image_stats (Gray [[0, 100], [150, 255]]) =
     Inr \<lparr> min_stat = 0, max_stat = 255, mean = 505 / 4, std = sqrt (135075 / 16),
           width = 2, height = 2, median = 125 \<rparr>"
  by (simp add: calculate_image_stats_def to_gray_def np_mean_def np_std_def np_median_def
      power2_eq_square)

lemma scenario_std_lower: "9188 / 100 < sqrt (135075 / 16)"
  by (rule real_less_rsqrt) (simp add: power2_eq_square)

lemma scenario_std_upper: "sqrt (135075 / 16) < 9189 / 100"
  by (rule real_less_lsqrt) (simp_all add: power2_eq_square)

text \<open>
  Claim C1 gives the standard deviation of the scenario image as about 94.8. The code
  computes the population standard deviation, the square root of 8442.1875, which is
  more than 2.9 away from 94.8.
\<close>

theorem scenario_std_counterexample:
  "calculate_image_stats (Gray [[0, 100], [150, 255]]) =
     Inr \<lparr> min_stat = 0, max_stat = 255, mean = 126.25, std = sqrt 8442.1875,
           width = 2, height = 2, median = 125 \<rparr>
   \<and> 2.9 < \<bar>sqrt 8442.1875 - 94.8\<bar>"
proof -
  have e: "(8442.1875 :: real) = 135075 / 16" by simp
  have "sqrt (135075 / 16) - 948 / 10 < - (29 / 10)"
    using scenario_std_upper by simp
  then have "29 / 10 < \<bar>sqrt (135075 / 16) - 948 / 10\<bar>" by linarith
  then show ?thesis unfolding e using scenario_stats by simp
qed

lemma scenario_preprocess:
  "preprocess_image cv (Gray [[0, 100], [150, 255]]) False 1 0 = Inr [[0, 100], [150, 255]]"
  by (simp add: preprocess_image_def to_gray_def convertScaleAbs_def scale_abs_px_def
      cvRound_def saturate_cast_uchar_def)

lemma scenario_colors:
  "map (map (last_band_color scenario_scheme)) [[0, 100], [150, 255]] =
     [[(0, 0, 255), (0, 255, 0)], [(0, 255, 0), (255, 0, 0)]]"
  by (simp add: scenario_scheme_def last_band_color_def in_band_def)

text \<open>
  Claim C1, amended. For the image \<open>[[0, 100], [150, 255]]\<close>, equalisation off, gain 1,
  offset 0 and the three-band scheme, preprocessing returns the image unchanged,
  colouring returns \<open>[[[0,0,255],[0,255,0]],[[0,255,0],[255,0,0]]]\<close>, and the statistics
  are min 0, max 255, mean 126.25 and standard deviation \<open>sqrt 8442.1875\<close>, between
  91.88 and 91.89.
\<close>

theorem end_to_end_scenario:
  assumes "schemes standard = Some dflt" and "schemes name = Some scenario_scheme"
  shows "preprocess_image cv (Gray [[0, 100], [150, 255]]) False 1 0 =
           Inr [[0, 100], [150, 255]]
         \<and> enhance_pseudocolor schemes (Gray [[0, 100], [150, 255]]) name =
           Inr [[(0, 0, 255), (0, 255, 0)], [(0, 255, 0), (255, 0, 0)]]
         \<and> process_single_image cv schemes (Gray [[0, 100], [150, 255]]) False 1 0 name =
           Inr ([[(0, 0, 255), (0, 255, 0)], [(0, 255, 0), (255, 0, 0)]],
                \<lparr> min_stat = 0, max_stat = 255, mean = 126.25, std = sqrt 8442.1875,
                  width = 2, height = 2, median = 125 \<rparr>)
         \<and> 91.88 < sqrt 8442.1875 \<and> sqrt 8442.1875 < 91.89"
proof -
  have e: "(8442.1875 :: real) = 135075 / 16" by simp
  have gl: "get_layers schemes name = Inr scenario_scheme"
    using assms by (rule get_layers_known)
  have col: "enhance_pseudocolor schemes (Gray [[0, 100], [150, 255]]) name =
      Inr [[(0, 0, 255), (0, 255, 0)], [(0, 255, 0), (255, 0, 0)]]"
    unfolding enhance_pseudocolor_Gray [OF gl] scenario_colors ..
  have stats: "calculate_image_stats (Gray [[0, 100], [150, 255]]) =
      Inr \<lparr> min_stat = 0, max_stat = 255, mean = 126.25, std = sqrt 8442.1875,
            width = 2, height = 2, median = 125 \<rparr>"
    unfolding e using scenario_stats by simp
  have pipe: "process_single_image cv schemes (Gray [[0, 100], [150, 255]]) False 1 0 name =
      Inr ([[(0, 0, 255), (0, 255, 0)], [(0, 255, 0), (255, 0, 0)]],
           \<lparr> min_stat = 0, max_stat = 255, mean = 126.25, std = sqrt 8442.1875,
             width = 2, height = 2, median = 125 \<rparr>)"
    by (simp add: process_single_image_def scenario_preprocess col scenario_stats)
  have lo: "91.88 < sqrt 8442.1875" unfolding e using scenario_std_lower by simp
  have hi: "sqrt 8442.1875 < 91.89" unfolding e using scenario_std_upper by simp
  show ?thesis
    by (intro conjI scenario_preprocess col pipe lo hi)
qed

theorem end_to_end_scenario_witness:
  "scenario_schemes standard = Some scenario_scheme
   \<and> process_single_image failing_clahe scenario_schemes (Gray [[0, 100], [150, 255]])
         False 1 0 standard =
       Inr ([[(0, 0, 255), (0, 255, 0)], [(0, 255, 0), (255, 0, 0)]],
            \<lparr> min_stat = 0, max_stat = 255, mean = 126.25, std = sqrt 8442.1875,
              width = 2, height = 2, median = 125 \<rparr>)
   \<and> 91.88 < sqrt 8442.1875 \<and> sqrt 8442.1875 < 91.89"
proof -
  have d: "scenario_schemes standard = Some scenario_scheme"
    by (simp add: scenario_schemes_def)
  note t = end_to_end_scenario [of scenario_schemes scenario_scheme standard failing_clahe, OF d d]
  show ?thesis
    by (intro conjI d t [THEN conjunct2, THEN conjunct2, THEN conjunct1]
        t [THEN conjunct2, THEN conjunct2, THEN conjunct2, THEN conjunct1]
        t [THEN conjunct2, THEN conjunct2, THEN conjunct2, THEN conjunct2])
qed

subsection \<open>Colouring twice\<close>

lemma filter_in_band_unique:
  assumes "pairwise_disjoint layers" and "b \<in> set layers" and "in_band b v"
  shows "filter (\<lambda>b. in_band b v) layers = [b]"
  using assms
proof (induction layers)
  case Nil
  then show ?case by simp
next
  case (Cons a layers)
  have no: "\<forall>b' \<in> set layers. \<not> overlap a b'" and pd: "pairwise_disjoint layers"
    using Cons.prems(1) by simp_all
  show ?case
  proof (cases "in_band a v")
    case True
    have "\<not> in_band b' v" if "b' \<in> set layers" for b'
      using no that True by (auto simp: overlap_def)
    then have empty: "filter (\<lambda>b. in_band b v) layers = []"
      by (simp add: filter_empty_conv)
    have "b \<notin> set layers"
      using Cons.prems(3) \<open>\<And>b'. b' \<in> set layers \<Longrightarrow> \<not> in_band b' v\<close> by blast
    then have "b = a" using Cons.prems(2) by simp
    then show ?thesis using True empty by simp
  next
    case False
    then have "b \<noteq> a" using Cons.prems(3) by blast
    then have "b \<in> set layers" using Cons.prems(2) by simp
    from Cons.IH [OF pd this Cons.prems(3)] False show ?thesis by simp
  qed
qed

lemma last_band_color_unique:
  assumes "pairwise_disjoint layers" and "b \<in> set layers" and "in_band b v"
  shows "last_band_color layers v = snd (snd b)"
  by (simp add: last_band_color_def filter_in_band_unique [OF assms])

lemma last_band_color_idem:
  assumes "pairwise_disjoint layers" and "covers layers" and "gray_stays_in_band layers"
  shows "last_band_color layers (bgr2gray (last_band_color layers v)) = last_band_color layers v"
proof -
  have "\<exists>b \<in> set layers. in_band b v"
    using assms(2) unfolding covers_def by (rule spec)
  then obtain b where b: "b \<in> set layers" "in_band b v" by blast
  have c: "last_band_color layers v = snd (snd b)"
    using assms(1) b by (rule last_band_color_unique)
  have "in_band b (bgr2gray (snd (snd b)))"
    using assms(3) b by (auto simp: gray_stays_in_band_def)
  with assms(1) b(1) have "last_band_color layers (bgr2gray (snd (snd b))) = snd (snd b)"
    by (rule last_band_color_unique)
  then show ?thesis unfolding c .
qed

lemma enhance_pseudocolor_BGR:
  assumes "get_layers schemes name = Inr layers" and "concat px \<noteq> []"
  shows "enhance_pseudocolor schemes (BGR px) name =
         Inr (map (map (\<lambda>p. last_band_color layers (bgr2gray p))) px)"
  using assms
  by (simp add: enhance_pseudocolor_def to_gray_def cvtColor_BGR2GRAY_def paint_layers_zeros3
      comp_def)

text \<open>
  Claim C5, amended. For a scheme whose bands are pairwise disjoint, cover \<open>[0, 256)\<close>
  and keep the gray value of their own colour, and for a gray image with at least one
  pixel, colouring the coloured image again returns it unchanged.
\<close>

theorem enhance_pseudocolor_twice:
  assumes "schemes standard = Some dflt" and "schemes name = Some layers"
    and "pairwise_disjoint layers" and "covers layers" and "gray_stays_in_band layers"
    and "concat gray \<noteq> []"
  shows "\<exists>once. enhance_pseudocolor schemes (Gray gray) name = Inr once
           \<and> enhance_pseudocolor schemes (BGR once) name = Inr once"
proof -
  have gl: "get_layers schemes name = Inr layers"
    using assms(1,2) by (rule get_layers_known)
  let ?once = "map (map (last_band_color layers)) gray"
  have one: "enhance_pseudocolor schemes (Gray gray) name = Inr ?once"
    using gl by (rule enhance_pseudocolor_Gray)
  have ne: "concat ?once \<noteq> []"
    using assms(6) by (simp add: map_concat [symmetric])
  have "enhance_pseudocolor schemes (BGR ?once) name =
        Inr (map (map (\<lambda>p. last_band_color layers (bgr2gray p))) ?once)"
    using gl ne by (rule enhance_pseudocolor_BGR)
  also have "map (map (\<lambda>p. last_band_color layers (bgr2gray p))) ?once = ?once"
    by (simp add: comp_def last_band_color_idem [OF assms(3,4,5)])
  finally show ?thesis using one by blast
qed

lemma uint_u8_bounds: "0 \<le> uint (v :: u8)" "uint (v :: u8) < 256"
  using uint_lt2p [of v] by simp_all

lemma scenario_scheme_disjoint: "pairwise_disjoint scenario_scheme"
  by (auto simp: scenario_scheme_def overlap_def in_band_def)

lemma scenario_scheme_covers: "covers scenario_scheme"
  unfolding covers_def
proof
  fix v :: u8
  show "\<exists>b \<in> set scenario_scheme. in_band b v"
    using uint_u8_bounds [of v] by (auto simp: scenario_scheme_def in_band_def)
qed

text \<open>
  Claim C5 says that colouring twice equals colouring once for every scheme with
  pairwise disjoint bands that cover \<open>[0, 256)\<close>. The second call converts the colour
  image to gray first: with the three-band scheme the pixel 255 becomes
  \<open>(255, 0, 0)\<close>, whose gray value 29 lies in the first band, so the second call
  returns \<open>(0, 0, 255)\<close>.
\<close>

theorem enhance_pseudocolor_twice_counterexample:
  "pairwise_disjoint scenario_scheme \<and> covers scenario_scheme
   \<and> enhance_pseudocolor scenario_schemes (Gray [[255]]) standard = Inr [[(255, 0, 0)]]
   \<and> enhance_pseudocolor scenario_schemes (BGR [[(255, 0, 0)]]) standard = Inr [[(0, 0, 255)]]"
proof -
  have gl: "get_layers scenario_schemes standard = Inr scenario_scheme"
    by (simp add: get_layers_def scenario_schemes_def)
  have one: "enhance_pseudocolor scenario_schemes (Gray [[255]]) standard = Inr [[(255, 0, 0)]]"
    unfolding enhance_pseudocolor_Gray [OF gl]
    by (simp add: scenario_scheme_def last_band_color_def in_band_def)
  have ne: "concat [[(255, 0, 0) :: color]] \<noteq> []" by simp
  have two: "enhance_pseudocolor scenario_schemes (BGR [[(255, 0, 0)]]) standard =
      Inr [[(0, 0, 255)]]"
    unfolding enhance_pseudocolor_BGR [OF gl ne]
    by (simp add: scenario_scheme_def last_band_color_def in_band_def bgr2gray_def)
  show ?thesis
    by (intro conjI scenario_scheme_disjoint scenario_scheme_covers one two)
qed

lemma closed_scheme_props:
  "pairwise_disjoint [(0, 100, (0, 0, 255)), (100, 256, (0, 255, 0))]"
  "covers [(0, 100, (0, 0, 255)), (100, 256, (0, 255, 0))]"
  "gray_stays_in_band [(0, 100, (0, 0, 255)), (100, 256, (0, 255, 0))]"
proof -
  show "pairwise_disjoint [(0, 100, (0, 0, 255)), (100, 256, (0, 255, 0))]"
    by (auto simp: overlap_def in_band_def)
  show "covers [(0, 100, (0, 0, 255)), (100, 256, (0, 255, 0))]"
    unfolding covers_def
  proof
    fix v :: u8
    show "\<exists>b \<in> set [(0, 100, (0, 0, 255)), (100, 256, (0, 255, 0))]. in_band b v"
      using uint_u8_bounds [of v] by (auto simp: in_band_def)
  qed
  show "gray_stays_in_band [(0, 100, (0, 0, 255)), (100, 256, (0, 255, 0))]"
    by (simp add: gray_stays_in_band_def in_band_def bgr2gray_def)
qed

theorem enhance_pseudocolor_twice_witness:
  "closed_schemes standard = Some [(0, 100, (0, 0, 255)), (100, 256, (0, 255, 0))]
   \<and> concat [[0, 255 :: u8]] \<noteq> []
   \<and> enhance_pseudocolor closed_schemes (Gray [[0, 255]]) standard =
       Inr [[(0, 0, 255), (0, 255, 0)]]
   \<and> enhance_pseudocolor closed_schemes (BGR [[(0, 0, 255), (0, 255, 0)]]) standard =
       Inr [[(0, 0, 255), (0, 255, 0)]]"
proof -
  have d: "closed_schemes standard = Some [(0, 100, (0, 0, 255)), (100, 256, (0, 255, 0))]"
    by (simp add: closed_schemes_def)
  have ne: "concat [[0, 255 :: u8]] \<noteq> []" by simp
  have gl: "get_layers closed_schemes standard =
      Inr [(0, 100, (0, 0, 255)), (100, 256, (0, 255, 0))]"
    using d by (simp add: get_layers_def)
  have one: "enhance_pseudocolor closed_schemes (Gray [[0, 255]]) standard =
      Inr [[(0, 0, 255), (0, 255, 0)]]"
    unfolding enhance_pseudocolor_Gray [OF gl]
    by (simp add: last_band_color_def in_band_def)
  from enhance_pseudocolor_twice [of closed_schemes _ standard _ "[[0, 255]]",
      OF d d closed_scheme_props ne]
  obtain once where
    o: "enhance_pseudocolor closed_schemes (Gray [[0, 255]]) standard = Inr once"
       "enhance_pseudocolor closed_schemes (BGR once) standard = Inr once"
    by blast
  from o(1) one have "once = [[(0, 0, 255), (0, 255, 0)]]" by simp
  with o(2) show ?thesis using d ne one by simp
qed

end
